theory Spec2Isabelle
  imports Main "HOL-Library.Sublist"
begin

section \<open>Strings and header names\<close>

text \<open>
  Go strings are byte sequences; they are modelled as \<open>string\<close> (a list of \<open>char\<close>).
  \<open>strings.HasPrefix s p\<close> is \<open>prefix p s\<close>.
\<close>

definition is_lower :: "char \<Rightarrow> bool" where
  "is_lower c = (97 \<le> (of_char c :: nat) \<and> (of_char c :: nat) \<le> 122)"

definition is_upper :: "char \<Rightarrow> bool" where
  "is_upper c = (65 \<le> (of_char c :: nat) \<and> (of_char c :: nat) \<le> 90)"

definition is_digit :: "char \<Rightarrow> bool" where
  "is_digit c = (48 \<le> (of_char c :: nat) \<and> (of_char c :: nat) \<le> 57)"

definition to_upper :: "char \<Rightarrow> char" where
  "to_upper c = (if is_lower c then char_of ((of_char c :: nat) - 32) else c)"

definition to_lower :: "char \<Rightarrow> char" where
  "to_lower c = (if is_upper c then char_of ((of_char c :: nat) + 32) else c)"

text \<open>
  \<open>validHeaderFieldByte\<close> of net/textproto: the token characters of RFC 7230.
\<close>

definition validHeaderFieldByte :: "char \<Rightarrow> bool" where
  "validHeaderFieldByte c =
     (is_lower c \<or> is_upper c \<or> is_digit c \<or> c \<in> set ''!#$%&*+-.^_`|~'' \<or> c = CHR 0x27)"

text \<open>
  The canonical form of a header name: the first letter and every letter after a
  hyphen in upper case, the other letters in lower case. The flag says whether the
  next letter is to be upper case.
\<close>

fun canonical_letters :: "bool \<Rightarrow> string \<Rightarrow> string" where
  "canonical_letters upper [] = []"
| "canonical_letters upper (c # cs) =
     (let c' = (if upper \<and> is_lower c then to_upper c
                else if \<not> upper \<and> is_upper c then to_lower c
                else c)
      in c' # canonical_letters (c' = CHR ''-'') cs)"

text \<open>
  \<open>textproto.CanonicalMIMEHeaderKey\<close>: a name holding a byte that is not a token
  character is returned unchanged.
\<close>

definition CanonicalMIMEHeaderKey :: "string \<Rightarrow> string" where
  "CanonicalMIMEHeaderKey s =
     (if list_all validHeaderFieldByte s then canonical_letters True s else s)"

text \<open>
  \<open>strings.Split s sep\<close> for a separator of one byte, the only use in the gateway
  (\<open>strings.Split(authHeader, " ")\<close>): the pieces between the separators, one more
  than there are separators. The accumulator holds the current piece reversed.
\<close>

fun split_acc :: "char \<Rightarrow> string \<Rightarrow> string \<Rightarrow> string list" where
  "split_acc sep cur [] = [rev cur]"
| "split_acc sep cur (c # cs) =
     (if c = sep then rev cur # split_acc sep [] cs else split_acc sep (c # cur) cs)"

definition Split :: "string \<Rightarrow> char \<Rightarrow> string list" where
  "Split s sep = split_acc sep [] s"

text \<open>The decimal digits of a number, as \<open>%d\<close> prints them.\<close>

fun show_nat :: "nat \<Rightarrow> string" where
  "show_nat n =
     (if n < 10 then [char_of (48 + n)]
      else show_nat (n div 10) @ [char_of (48 + n mod 10)])"

declare show_nat.simps [simp del]

definition show_int :: "int \<Rightarrow> string" where
  "show_int i = (if i < 0 then CHR ''-'' # show_nat (nat (- i)) else show_nat (nat i))"

section \<open>Data model\<close>

record Config =
  AuthServiceURL :: string
  BlogServiceURL :: string
  UserServiceURL :: string
  AspServiceURL :: string

text \<open>
  A reverse proxy for one host, \<open>httputil.NewSingleHostReverseProxy target\<close>, is
  the target it forwards to.
\<close>

datatype ReverseProxy = NewSingleHostReverseProxy string

record Gateway =
  Config :: Config
  AuthProxy :: ReverseProxy
  BlogProxy :: ReverseProxy
  UserProxy :: ReverseProxy
  AspProxy :: ReverseProxy

record AuthValidateResponse =
  UserID :: string
  Role :: string
  Username :: string
  Error :: string

text \<open>
  \<open>http.Header\<close> is a map from canonical header names to the list of values of the
  field. \<open>Get\<close> returns the first value of the canonical name, or the empty
  string; \<open>Set\<close> replaces all values of the canonical name by one value.
\<close>

type_synonym Header = "string \<rightharpoonup> string list"

definition Header_Get :: "Header \<Rightarrow> string \<Rightarrow> string" where
  "Header_Get h key =
     (case h (CanonicalMIMEHeaderKey key) of
        None \<Rightarrow> []
      | Some [] \<Rightarrow> []
      | Some (v # _) \<Rightarrow> v)"

definition Header_Set :: "Header \<Rightarrow> string \<Rightarrow> string \<Rightarrow> Header" where
  "Header_Set h key v = h(CanonicalMIMEHeaderKey key \<mapsto> [v])"

record Request =
  Method :: string
  Path :: string
  Header :: Header

text \<open>An outbound call of the gateway's HTTP client.\<close>

record Outbound =
  out_method :: string
  out_url :: string
  out_authorization :: string

record Response =
  StatusCode :: int
  Body :: string

text \<open>
  What a handler does to the world: the lines it gives the logger and the outbound
  calls its HTTP client makes, both in order.
\<close>

record World =
  logged :: "string list"
  outbound :: "Outbound list"

text \<open>
  The libraries and the network the gateway calls are parameters: \<open>url_Parse\<close> gives
  the error of \<open>url.Parse\<close> if it fails, \<open>client_Do\<close> the outcome of the HTTP call
  (\<open>Inl\<close> the transport error), \<open>json_Decode\<close> the outcome of decoding a body into
  an \<open>AuthValidateResponse\<close> (\<open>Inl\<close> the decoding error).
\<close>

record Env =
  url_Parse :: "string \<Rightarrow> string option"
  client_Do :: "Outbound \<Rightarrow> string + Response"
  json_Decode :: "string \<Rightarrow> string + AuthValidateResponse"

text \<open>
  The answer to the inbound request: an error status with its body, the request as
  a reverse proxy received it, the redirect (status 301) of the router to the clean
  form of the path, or the answer that the CORS wrapper gives by itself. Response
  header fields other than the target of the redirect are not modelled.
\<close>

datatype Outcome =
    HttpError int string
  | Proxied ReverseProxy Request
  | MovedPermanently string
  | CorsAnswered

definition StatusOK :: int where "StatusOK = 200"
definition StatusUnauthorized :: int where "StatusUnauthorized = 401"
definition StatusNotFound :: int where "StatusNotFound = 404"

text \<open>\<open>http.Error w msg code\<close> answers with the status and the message on a line.\<close>

definition http_Error :: "string \<Rightarrow> int \<Rightarrow> Outcome" where
  "http_Error msg code = HttpError code (msg @ [CHR 0x0A])"

definition Printf :: "string \<Rightarrow> World \<Rightarrow> World" where
  "Printf line w = w\<lparr>logged := logged w @ [line]\<rparr>"

section \<open>The Identity Verifier\<close>

text \<open>The errors of \<open>validateJWT\<close>, one constructor for each \<open>fmt.Errorf\<close>.\<close>

datatype VerifyError =
    CreateRequestFailed string
  | ContactFailed string
  | AuthServiceError string
  | AuthServiceStatus int
  | DecodeFailed string
  | MissingIdentity

fun error_text :: "VerifyError \<Rightarrow> string" where
  "error_text (CreateRequestFailed e) = ''failed to create validation request: '' @ e"
| "error_text (ContactFailed e) = ''failed to contact AuthService: '' @ e"
| "error_text (AuthServiceError m) = ''AuthService error: '' @ m"
| "error_text (AuthServiceStatus n) = ''AuthService returned status: '' @ show_int n"
| "error_text (DecodeFailed e) = ''failed to decode AuthService response: '' @ e"
| "error_text MissingIdentity = ''invalid AuthService response: missing userID or role''"

text \<open>
  The request \<open>validateJWT\<close> builds: a \<open>POST\<close> to the validation path of the auth
  service with the token as bearer credential.
\<close>

definition validation_request :: "Gateway \<Rightarrow> string \<Rightarrow> Outbound" where
  "validation_request g token =
     \<lparr>out_method = ''POST'',
      out_url = AuthServiceURL (Config g) @ ''/api/auth/jwt'',
      out_authorization = ''Bearer '' @ token\<rparr>"

text \<open>
  \<open>validateJWT\<close> logs a line, builds the request (\<open>http.NewRequest\<close> fails when
  the address does not parse) and hands it to the client, which is the one outbound
  call; then the status and the decoded body of the answer decide. The result is
  the error, or the triple of userID, role and username.
\<close>

definition validateJWT ::
  "Env \<Rightarrow> Gateway \<Rightarrow> string \<Rightarrow> World \<Rightarrow> (VerifyError + string \<times> string \<times> string) \<times> World"
where
  "validateJWT env g token w =
     (let w1 = Printf ''Authorizing... Forwarding requet'' w;
          req = validation_request g token
      in case url_Parse env (out_url req) of
           Some e \<Rightarrow> (Inl (CreateRequestFailed e), w1)
         | None \<Rightarrow>
             (let w2 = w1\<lparr>outbound := outbound w1 @ [req]\<rparr>
              in case client_Do env req of
                   Inl e \<Rightarrow> (Inl (ContactFailed e), w2)
                 | Inr resp \<Rightarrow>
                     if StatusCode resp \<noteq> StatusOK then
                       (case json_Decode env (Body resp) of
                          Inr authResp \<Rightarrow>
                            if Error authResp \<noteq> []
                            then (Inl (AuthServiceError (Error authResp)), w2)
                            else (Inl (AuthServiceStatus (StatusCode resp)), w2)
                        | Inl _ \<Rightarrow> (Inl (AuthServiceStatus (StatusCode resp)), w2))
                     else
                       (case json_Decode env (Body resp) of
                          Inl e \<Rightarrow> (Inl (DecodeFailed e), w2)
                        | Inr authResp \<Rightarrow>
                            if UserID authResp = [] \<or> Role authResp = []
                            then (Inl MissingIdentity, w2)
                            else (Inr (UserID authResp, Role authResp, Username authResp), w2))))"

section \<open>The Auth Gate\<close>

text \<open>
  A handler takes the request and the world and gives the answer and the new world.
  \<open>AuthMiddleware\<close> wraps the handler \<open>next\<close>; the header fields of a request
  are keyed by their canonical names, as net/http delivers them.
\<close>

type_synonym Handler = "Request \<Rightarrow> World \<Rightarrow> Outcome \<times> World"

definition AuthMiddleware :: "Env \<Rightarrow> Gateway \<Rightarrow> Handler \<Rightarrow> Handler" where
  "AuthMiddleware env g next r w =
     (if prefix ''/api/auth/'' (Path r) then next r w
      else
        let authHeader = Header_Get (Header r) ''Authorization''
        in if authHeader = [] then
             (http_Error ''missing Authorization header'' StatusUnauthorized, w)
           else
             let parts = Split authHeader CHR '' ''
             in if length parts \<noteq> 2 \<or> parts ! 0 \<noteq> ''Bearer'' then
                  (http_Error ''invalid Authorization format'' StatusUnauthorized, w)
                else
                  (case validateJWT env g (parts ! 1) w of
                     (Inl err, w') \<Rightarrow>
                       (http_Error ''invalid JWT'' StatusUnauthorized,
                        Printf (''JWT validation failed: '' @ error_text err) w')
                   | (Inr (userID, role, username), w') \<Rightarrow>
                       next
                         (r\<lparr>Header :=
                              Header_Set
                                (Header_Set
                                   (Header_Set (Header r) ''X-User-ID'' userID)
                                   ''X-User-Role'' role)
                                ''X-Username'' username\<rparr>)
                         w'))"

text \<open>\<open>ProxyHandler\<close> logs the forwarding and gives the request to the proxy.\<close>

definition ProxyHandler :: "ReverseProxy \<Rightarrow> string \<Rightarrow> Handler" where
  "ProxyHandler proxy targetURL r w =
     (Proxied proxy r,
      Printf (''Forwarding '' @ Method r @ '' '' @ Path r @ '' to '' @ targetURL) w)"

section \<open>Startup\<close>

text \<open>
  \<open>NewGateway\<close> parses the four addresses in the order auth, blog, user, asp and
  returns the first error. The logger and the HTTP client of the Go struct are the
  \<open>World\<close> and the \<open>Env\<close> of the handlers.
\<close>

definition NewGateway :: "Env \<Rightarrow> Config \<Rightarrow> string + Gateway" where
  "NewGateway env config =
     (case url_Parse env (AuthServiceURL config) of
        Some e \<Rightarrow> Inl (''invalid auth service URL: '' @ e)
      | None \<Rightarrow>
     (case url_Parse env (BlogServiceURL config) of
        Some e \<Rightarrow> Inl (''invalid blog service URL: '' @ e)
      | None \<Rightarrow>
     (case url_Parse env (UserServiceURL config) of
        Some e \<Rightarrow> Inl (''invalid user service URL: '' @ e)
      | None \<Rightarrow>
     (case url_Parse env (AspServiceURL config) of
        Some e \<Rightarrow> Inl (''invalid asp service URL: '' @ e)
      | None \<Rightarrow>
          Inr \<lparr>Config = config,
               AuthProxy = NewSingleHostReverseProxy (AuthServiceURL config),
               BlogProxy = NewSingleHostReverseProxy (BlogServiceURL config),
               UserProxy = NewSingleHostReverseProxy (UserServiceURL config),
               AspProxy = NewSingleHostReverseProxy (AspServiceURL config)\<rparr>))))"

text \<open>
  The process environment: \<open>Getenv\<close> is \<open>os.Getenv\<close> (the empty string for a
  variable that is not set), \<open>godotenv_Load\<close> the error of \<open>godotenv.Load\<close> if it
  fails.
\<close>

record OS =
  Getenv :: "string \<Rightarrow> string"
  godotenv_Load :: "string option"

definition env_config :: "OS \<Rightarrow> Config" where
  "env_config os =
     \<lparr>AuthServiceURL = Getenv os ''AUTH_SERVICE_URL'',
      BlogServiceURL = Getenv os ''BLOG_SERVICE_URL'',
      UserServiceURL = Getenv os ''USER_SERVICE_URL'',
      AspServiceURL = Getenv os ''ASP_SERVICE_URL''\<rparr>"

section \<open>The Router\<close>

text \<open>
  \<open>main\<close> registers four routes on a gorilla/mux router, each of the shape
  \<open>router.PathPrefix(tpl).Subrouter().HandleFunc("/{path:.*}", h)\<close>. Such a route
  matches a path when both of its matchers do:
  \<^item> the prefix matcher, the regular expression \<open>^tpl\<close> (\<open>tpl\<close> quoted);
  \<^item> the route of the subrouter, whose template is \<open>tpl\<close> without its trailing
    slashes followed by \<open>/{path:.*}\<close>, the regular expression
    \<open>^tpl'/(?P<v0>.*)$\<close>. In Go's regular expressions \<open>.\<close> matches every
    character but the line feed, and \<open>$\<close> the end of the text only.
  The router tries its routes in the order of registration and the first that
  matches wins.
\<close>

record Route =
  PathPrefix :: string
  handler :: Handler

definition LF :: char where
  "LF = CHR 0x0A"

definition TrimRight_slash :: "string \<Rightarrow> string" where
  "TrimRight_slash s = rev (dropWhile (\<lambda>c. c = CHR ''/'') (rev s))"

definition route_matches :: "string \<Rightarrow> string \<Rightarrow> bool" where
  "route_matches tpl p =
     (let sub = TrimRight_slash tpl @ ''/''
      in prefix tpl p \<and> prefix sub p \<and> LF \<notin> set (drop (length sub) p))"

fun Match :: "Route list \<Rightarrow> string \<Rightarrow> Route option" where
  "Match [] p = None"
| "Match (rt # rts) p = (if route_matches (PathPrefix rt) p then Some rt else Match rts p)"

definition routes :: "Gateway \<Rightarrow> Route list" where
  "routes g =
     [\<lparr>PathPrefix = ''/api/auth'',
       handler = ProxyHandler (AuthProxy g) (AuthServiceURL (Config g))\<rparr>,
      \<lparr>PathPrefix = ''/api/blog'',
       handler = ProxyHandler (BlogProxy g) (BlogServiceURL (Config g))\<rparr>,
      \<lparr>PathPrefix = ''/api/user'',
       handler = ProxyHandler (UserProxy g) (UserServiceURL (Config g))\<rparr>,
      \<lparr>PathPrefix = ''/api/'',
       handler = ProxyHandler (AspProxy g) (AspServiceURL (Config g))\<rparr>]"

text \<open>
  \<open>path.Clean\<close> on a rooted path, the only use the router makes of it: the
  elements between the slashes are read from the left; an empty element and the
  element \<open>.\<close> are dropped, the element \<open>..\<close> removes the element kept last if
  there is one, and the elements kept are joined by single slashes after the root.
  The list of the elements kept is held in reverse.
\<close>

fun clean_elements :: "string list \<Rightarrow> string list \<Rightarrow> string list" where
  "clean_elements kept [] = rev kept"
| "clean_elements kept (e # es) =
     (if e = [] \<or> e = ''.'' then clean_elements kept es
      else if e = ''..'' then
        clean_elements (case kept of [] \<Rightarrow> [] | k # ks \<Rightarrow> ks) es
      else clean_elements (e # kept) es)"

fun join_elements :: "string list \<Rightarrow> string" where
  "join_elements [] = []"
| "join_elements [e] = e"
| "join_elements (e # es) = e @ ''/'' @ join_elements es"

definition path_Clean :: "string \<Rightarrow> string" where
  "path_Clean p = ''/'' @ join_elements (clean_elements [] (Split (tl p) CHR ''/''))"

text \<open>
  \<open>cleanPath\<close> of mux: the path is rooted, cleaned, and gets its trailing slash
  back if it had one.
\<close>

definition cleanPath :: "string \<Rightarrow> string" where
  "cleanPath p =
     (case p of
        [] \<Rightarrow> ''/''
      | c # cs \<Rightarrow>
          (let p' = (if c \<noteq> CHR ''/'' then ''/'' @ p else p);
               np = path_Clean p'
           in if last p' = CHR ''/'' \<and> np \<noteq> ''/'' then np @ ''/'' else np))"

text \<open>
  \<open>ServeHTTP\<close> of the mux router: a path that is not in clean form is answered
  with a redirect to its clean form, before any matching. Otherwise the routes are
  matched; the middleware registered with \<open>router.Use\<close> wraps the handler of the
  matched route, and a path that no route matches is answered by \<open>http.NotFound\<close>
  without the middleware.
\<close>

definition router_ServeHTTP :: "Env \<Rightarrow> Gateway \<Rightarrow> Handler" where
  "router_ServeHTTP env g r w =
     (if cleanPath (Path r) \<noteq> Path r then (MovedPermanently (cleanPath (Path r)), w)
      else
        (case Match (routes g) (Path r) of
           None \<Rightarrow> (http_Error ''404 page not found'' StatusNotFound, w)
         | Some rt \<Rightarrow> AuthMiddleware env g (handler rt) r w))"

text \<open>
  The handler \<open>handlers.CORS(...)\<close> of gorilla/handlers around a handler: every
  request of the method \<open>OPTIONS\<close> is answered by the wrapper itself, whatever its
  origin, and every other request is handed to the wrapped handler.
\<close>

definition cors :: "Handler \<Rightarrow> Handler" where
  "cors h r w = (if Method r = ''OPTIONS'' then (CorsAnswered, w) else h r w)"

text \<open>The request a reverse proxy received, if the outcome is a forwarded request.\<close>

fun forwarded :: "Outcome \<Rightarrow> Request option" where
  "forwarded (Proxied proxy r) = Some r"
| "forwarded (HttpError code body) = None"
| "forwarded (MovedPermanently location) = None"
| "forwarded CorsAnswered = None"

section \<open>The main functions\<close>

text \<open>
  How \<open>main\<close> ends: \<open>log.Fatal\<close> with its message, or a server listening on an
  address with its handler.
\<close>

datatype Process =
    Fatal string
  | ListenAndServe string Handler

text \<open>
  The body of \<open>main\<close> after the \<open>.env\<close> file is loaded; both \<open>main\<close> functions
  of the repository share it, up to the wrapper they put around the router.
\<close>

definition main_after_dotenv :: "(Handler \<Rightarrow> Handler) \<Rightarrow> Env \<Rightarrow> OS \<Rightarrow> Process" where
  "main_after_dotenv wrap env os =
     (let config = env_config os
      in if AuthServiceURL config = [] \<or> BlogServiceURL config = []
            \<or> UserServiceURL config = [] \<or> AspServiceURL config = []
         then Fatal ''Missing required environment variables''
         else
           (case NewGateway env config of
              Inl err \<Rightarrow> Fatal (''Failed to initialize gateway:'' @ err)
            | Inr gateway \<Rightarrow>
                (let port = (if Getenv os ''PORT'' = [] then ''8080'' else Getenv os ''PORT'')
                 in ListenAndServe ('':'' @ port) (wrap (router_ServeHTTP env gateway)))))"

text \<open>
  \<open>main\<close> of main.go: a \<open>.env\<close> file that does not load is fatal, and the
  server's handler is the router.
\<close>

definition main :: "Env \<Rightarrow> OS \<Rightarrow> Process" where
  "main env os =
     (case godotenv_Load os of
        Some err \<Rightarrow> Fatal (''Error loading .env file:'' @ err)
      | None \<Rightarrow> main_after_dotenv (\<lambda>h. h) env os)"

text \<open>
  \<open>main\<close> of the second main file: a \<open>.env\<close> file that does not load is only a
  warning, and the server's handler is the router inside the CORS wrapper.
\<close>

definition main_cors :: "Env \<Rightarrow> OS \<Rightarrow> Process" where
  "main_cors env os = main_after_dotenv cors env os"

text \<open>
  The failure classes of the verifier: the request could not be built, the auth
  backend could not be reached, it refused the token, its answer could not be
  decoded, or its answer lacked the subject or the role.
\<close>

datatype Reason =
    BadValidationRequest
  | UpstreamUnavailable
  | TokenRefused
  | MalformedResponse
  | IncompleteIdentity

fun reason :: "VerifyError \<Rightarrow> Reason" where
  "reason (CreateRequestFailed e) = BadValidationRequest"
| "reason (ContactFailed e) = UpstreamUnavailable"
| "reason (AuthServiceError m) = TokenRefused"
| "reason (AuthServiceStatus n) = TokenRefused"
| "reason (DecodeFailed e) = MalformedResponse"
| "reason MissingIdentity = IncompleteIdentity"


section \<open>Example inputs\<close>

text \<open>
  A gateway for four backends, an empty world, an environment whose auth backend
  gives a fixed answer, and requests built from a path and a list of header
  fields. They are the inputs at which the theorems below are instantiated.
\<close>

definition ex_config :: Config where
  "ex_config =
     \<lparr>AuthServiceURL = ''http://auth:8081'', BlogServiceURL = ''http://blog:8082'',
      UserServiceURL = ''http://user:8083'', AspServiceURL = ''http://asp:8084''\<rparr>"

definition ex_gateway :: Gateway where
  "ex_gateway =
     \<lparr>Config = ex_config,
      AuthProxy = NewSingleHostReverseProxy ''http://auth:8081'',
      BlogProxy = NewSingleHostReverseProxy ''http://blog:8082'',
      UserProxy = NewSingleHostReverseProxy ''http://user:8083'',
      AspProxy = NewSingleHostReverseProxy ''http://asp:8084''\<rparr>"

definition ex_world :: World where
  "ex_world = \<lparr>logged = [], outbound = []\<rparr>"

definition ex_env :: "(string + Response) \<Rightarrow> (string + AuthValidateResponse) \<Rightarrow> Env" where
  "ex_env answer decoded =
     \<lparr>url_Parse = (\<lambda>u. None), client_Do = (\<lambda>req. answer), json_Decode = (\<lambda>body. decoded)\<rparr>"

definition ex_request :: "string \<Rightarrow> (string \<times> string list) list \<Rightarrow> Request" where
  "ex_request path hs = \<lparr>Method = ''GET'', Path = path, Header = map_of hs\<rparr>"

definition ex_os :: "(string \<times> string) list \<Rightarrow> OS" where
  "ex_os vars =
     \<lparr>Getenv = (\<lambda>name. case map_of vars name of None \<Rightarrow> [] | Some v \<Rightarrow> v),
      godotenv_Load = None\<rparr>"

definition ex_gated_request :: Request where
  "ex_gated_request =
     ex_request ''/api/blog/posts/5''
       [(''Authorization'', [''Bearer tok'']),
        (''X-User-Id'', [''root'']),
        (''X-User-Role'', [''superuser''])]"

definition ex_answer :: "int \<Rightarrow> string + Response" where
  "ex_answer code = Inr \<lparr>StatusCode = code, Body = ''{}''\<rparr>"

definition ex_payload :: "string \<Rightarrow> string \<Rightarrow> string \<Rightarrow> string \<Rightarrow> string + AuthValidateResponse" where
  "ex_payload u ro n e = Inr \<lparr>UserID = u, Role = ro, Username = n, Error = e\<rparr>"

definition ex_called :: World where
  "ex_called =
     \<lparr>logged = [''Authorizing... Forwarding requet''],
      outbound = [validation_request ex_gateway ''tok'']\<rparr>"

definition ex_vars :: "(string \<times> string) list" where
  "ex_vars =
     [(''AUTH_SERVICE_URL'', ''http://auth:8081''),
      (''BLOG_SERVICE_URL'', ''http://blog:8082''),
      (''USER_SERVICE_URL'', ''http://user:8083'')]"

definition ex_line_feed_path :: string where
  "ex_line_feed_path = ''/api/blog/a'' @ [LF] @ ''b''"

definition ex_api_auth_request :: Request where
  "ex_api_auth_request = ex_request ''/api/auth'' [(''Authorization'', [''Bearer tok''])]"

definition ex_empty_token_request :: Request where
  "ex_empty_token_request =
     ex_request ''/api/blog/posts'' [(''Authorization'', [''Bearer ''])]"

section \<open>Lemmas about the library functions\<close>

lemma split_acc_no_sep: "sep \<notin> set s \<Longrightarrow> split_acc sep cur s = [rev cur @ s]"
  by (induction s arbitrary: cur) auto

lemma split_acc_first_sep:
  "sep \<notin> set a \<Longrightarrow> split_acc sep cur (a @ sep # b) = (rev cur @ a) # split_acc sep [] b"
  by (induction a arbitrary: cur) auto

lemma split_acc_not_Nil: "split_acc sep cur s \<noteq> []"
  by (induction s arbitrary: cur) auto

lemma split_acc_single:
  "split_acc sep cur s = [x] \<longleftrightarrow> sep \<notin> set s \<and> x = rev cur @ s"
proof (cases "sep \<in> set s")
  case True
  then obtain a b where s: "s = a @ sep # b" and a: "sep \<notin> set a"
    by (meson split_list_first)
  show ?thesis using True by (simp add: s split_acc_first_sep [OF a] split_acc_not_Nil)
next
  case False
  then show ?thesis by (auto simp: split_acc_no_sep)
qed

lemma Split_two_iff:
  "Split s sep = [a, b] \<longleftrightarrow> s = a @ sep # b \<and> sep \<notin> set a \<and> sep \<notin> set b"
proof (cases "sep \<in> set s")
  case True
  then obtain a' b' where s: "s = a' @ sep # b'" and a': "sep \<notin> set a'"
    by (meson split_list_first)
  have "Split s sep = a' # split_acc sep [] b'"
    by (simp add: Split_def s split_acc_first_sep [OF a'])
  then have "Split s sep = [a, b] \<longleftrightarrow> a' = a \<and> sep \<notin> set b' \<and> b = b'"
    by (auto simp: split_acc_single)
  also have "\<dots> \<longleftrightarrow> s = a @ sep # b \<and> sep \<notin> set a \<and> sep \<notin> set b"
  proof
    assume "a' = a \<and> sep \<notin> set b' \<and> b = b'"
    then show "s = a @ sep # b \<and> sep \<notin> set a \<and> sep \<notin> set b" using s a' by simp
  next
    assume r: "s = a @ sep # b \<and> sep \<notin> set a \<and> sep \<notin> set b"
    then have "a' @ sep # b' = a @ sep # b" using s by simp
    then have "a' = a \<and> b' = b" using a' r
      by (metis append_Cons_eq_iff)
    then show "a' = a \<and> sep \<notin> set b' \<and> b = b'" using r by simp
  qed
  finally show ?thesis .
next
  case False
  then show ?thesis by (auto simp: Split_def split_acc_no_sep)
qed

lemma Split_Bearer_iff:
  "(\<exists>t. Split a CHR '' '' = [''Bearer'', t]) \<longleftrightarrow> (\<exists>t. a = ''Bearer '' @ t \<and> CHR '' '' \<notin> set t)"
  by (auto simp: Split_two_iff)

lemma key_Authorization: "CanonicalMIMEHeaderKey ''Authorization'' = ''Authorization''"
  by code_simp

lemma key_UserID: "CanonicalMIMEHeaderKey ''X-User-ID'' = ''X-User-Id''"
  by code_simp

lemma key_Role: "CanonicalMIMEHeaderKey ''X-User-Role'' = ''X-User-Role''"
  by code_simp

lemma key_Username: "CanonicalMIMEHeaderKey ''X-Username'' = ''X-Username''"
  by code_simp

section \<open>Lemmas about the gateway\<close>

text \<open>
  Outside the bypass prefix, a header of the shape \<open>Bearer t\<close> with no space in
  \<open>t\<close> takes the gate to the verifier, and the verifier's result decides.
\<close>

lemma AuthMiddleware_gated:
  assumes "\<not> prefix ''/api/auth/'' (Path r)"
    and "Header_Get (Header r) ''Authorization'' = ''Bearer '' @ t"
    and "CHR '' '' \<notin> set t"
  shows "AuthMiddleware env g next r w =
     (case validateJWT env g t w of
        (Inl err, w') \<Rightarrow>
          (http_Error ''invalid JWT'' StatusUnauthorized,
           Printf (''JWT validation failed: '' @ error_text err) w')
      | (Inr (userID, role, username), w') \<Rightarrow>
          next (r\<lparr>Header := Header_Set (Header_Set (Header_Set (Header r)
                   ''X-User-ID'' userID) ''X-User-Role'' role) ''X-Username'' username\<rparr>) w')"
proof -
  have "Split (''Bearer '' @ t) CHR '' '' = [''Bearer'', t]"
    using assms(3) by (simp add: Split_two_iff)
  then show ?thesis
    using assms(1,2) by (simp add: AuthMiddleware_def Let_def)
qed

lemma AuthMiddleware_error:
  assumes gated: "\<not> prefix ''/api/auth/'' (Path r)"
    and hdr: "Header_Get (Header r) ''Authorization'' = ''Bearer '' @ t"
    and tok: "CHR '' '' \<notin> set t"
    and err: "validateJWT env g t w = (Inl e, w')"
  shows "AuthMiddleware env g next r w =
     (http_Error ''invalid JWT'' StatusUnauthorized,
      Printf (''JWT validation failed: '' @ error_text e) w')"
  using AuthMiddleware_gated [OF gated hdr tok, of env g "next" w] err by simp

text \<open>
  Outside the bypass prefix, a header of any other shape is refused at once.
\<close>

lemma AuthMiddleware_header_refused:
  assumes gated: "\<not> prefix ''/api/auth/'' (Path r)"
    and bad: "\<not> (\<exists>t. Header_Get (Header r) ''Authorization'' = ''Bearer '' @ t \<and> CHR '' '' \<notin> set t)"
  shows "\<exists>msg. AuthMiddleware env g next r w = (HttpError StatusUnauthorized msg, w)"
proof (cases "Header_Get (Header r) ''Authorization'' = []")
  case True
  then show ?thesis using gated by (simp add: AuthMiddleware_def http_Error_def)
next
  case False
  let ?parts = "Split (Header_Get (Header r) ''Authorization'') CHR '' ''"
  have "length ?parts \<noteq> 2 \<or> ?parts ! 0 \<noteq> ''Bearer''"
  proof (rule ccontr)
    assume "\<not> (length ?parts \<noteq> 2 \<or> ?parts ! 0 \<noteq> ''Bearer'')"
    then have len: "length ?parts = 2" and first: "?parts ! 0 = ''Bearer''"
      by simp_all
    from len obtain a b where ab: "?parts = [a, b]"
      by (auto simp: length_Suc_conv numeral_2_eq_2)
    with first have "?parts = [''Bearer'', b]"
      by simp
    then show False
      using bad by (simp add: Split_two_iff)
  qed
  then show ?thesis
    using gated False by (auto simp: AuthMiddleware_def http_Error_def Let_def)
qed

text \<open>
  The verifier once the validation request could be built and the auth backend
  answered: one outbound call, and the answer decides.
\<close>

lemma validateJWT_response:
  assumes "url_Parse env (out_url (validation_request g t)) = None"
    and "client_Do env (validation_request g t) = Inr resp"
  shows "validateJWT env g t w =
     (let w2 = (Printf ''Authorizing... Forwarding requet'' w)
                 \<lparr>outbound := outbound w @ [validation_request g t]\<rparr>
      in if StatusCode resp \<noteq> StatusOK then
           (case json_Decode env (Body resp) of
              Inr authResp \<Rightarrow>
                if Error authResp \<noteq> []
                then (Inl (AuthServiceError (Error authResp)), w2)
                else (Inl (AuthServiceStatus (StatusCode resp)), w2)
            | Inl _ \<Rightarrow> (Inl (AuthServiceStatus (StatusCode resp)), w2))
         else
           (case json_Decode env (Body resp) of
              Inl e \<Rightarrow> (Inl (DecodeFailed e), w2)
            | Inr authResp \<Rightarrow>
                if UserID authResp = [] \<or> Role authResp = []
                then (Inl MissingIdentity, w2)
                else (Inr (UserID authResp, Role authResp, Username authResp), w2)))"
  using assms by (simp add: validateJWT_def Let_def Printf_def split: sum.splits)

text \<open>
  The text of an error tells the failure class: the texts of two classes differ.
\<close>

lemma error_text_reason: "error_text e' = error_text e \<Longrightarrow> reason e' = reason e"
  by (cases e; cases e'; simp)

lemma NewGateway_error_iff:
  "(\<exists>e. NewGateway env c = Inl e) \<longleftrightarrow>
     url_Parse env (AuthServiceURL c) \<noteq> None \<or> url_Parse env (BlogServiceURL c) \<noteq> None
     \<or> url_Parse env (UserServiceURL c) \<noteq> None \<or> url_Parse env (AspServiceURL c) \<noteq> None"
  by (simp add: NewGateway_def split: option.splits)

lemma main_after_dotenv_Fatal_iff:
  "(\<exists>msg. main_after_dotenv wrap env os = Fatal msg) \<longleftrightarrow>
     (\<exists>u \<in> {AuthServiceURL (env_config os), BlogServiceURL (env_config os),
              UserServiceURL (env_config os), AspServiceURL (env_config os)}.
        u = [] \<or> url_Parse env u \<noteq> None)"
proof (cases "NewGateway env (env_config os)")
  case (Inl e)
  then have "\<exists>e. NewGateway env (env_config os) = Inl e" by blast
  then have bad: "url_Parse env (AuthServiceURL (env_config os)) \<noteq> None
      \<or> url_Parse env (BlogServiceURL (env_config os)) \<noteq> None
      \<or> url_Parse env (UserServiceURL (env_config os)) \<noteq> None
      \<or> url_Parse env (AspServiceURL (env_config os)) \<noteq> None"
    by (simp only: NewGateway_error_iff)
  have "\<exists>msg. main_after_dotenv wrap env os = Fatal msg"
    using Inl by (simp add: main_after_dotenv_def Let_def)
  moreover have "\<exists>u \<in> {AuthServiceURL (env_config os), BlogServiceURL (env_config os),
              UserServiceURL (env_config os), AspServiceURL (env_config os)}.
        u = [] \<or> url_Parse env u \<noteq> None"
    using bad by blast
  ultimately show ?thesis by blast
next
  case (Inr gw)
  then have "\<not> (\<exists>e. NewGateway env (env_config os) = Inl e)" by simp
  then have good: "url_Parse env (AuthServiceURL (env_config os)) = None
      \<and> url_Parse env (BlogServiceURL (env_config os)) = None
      \<and> url_Parse env (UserServiceURL (env_config os)) = None
      \<and> url_Parse env (AspServiceURL (env_config os)) = None"
    by (simp only: NewGateway_error_iff) simp
  show ?thesis
    using Inr good by (auto simp: main_after_dotenv_def Let_def)
qed

text \<open>
  With four addresses that are present and parse, the gateway is served.
\<close>

lemma main_serves:
  assumes "\<forall>u \<in> {AuthServiceURL (env_config os), BlogServiceURL (env_config os),
                   UserServiceURL (env_config os), AspServiceURL (env_config os)}.
             u \<noteq> [] \<and> url_Parse env u = None"
  shows "\<exists>addr gw. NewGateway env (env_config os) = Inr gw
           \<and> main_cors env os = ListenAndServe addr (cors (router_ServeHTTP env gw))"
  using assms by (simp add: main_cors_def main_after_dotenv_def NewGateway_def Let_def)

text \<open>
  Each route of the table matches the paths under its prefix followed by a slash
  that have no line feed after it.
\<close>

lemma matches_auth:
  "route_matches ''/api/auth'' p \<longleftrightarrow> prefix ''/api/auth/'' p \<and> LF \<notin> set (drop 10 p)"
  by (auto simp: route_matches_def TrimRight_slash_def Let_def prefix_def)

lemma matches_blog:
  "route_matches ''/api/blog'' p \<longleftrightarrow> prefix ''/api/blog/'' p \<and> LF \<notin> set (drop 10 p)"
  by (auto simp: route_matches_def TrimRight_slash_def Let_def prefix_def)

lemma matches_user:
  "route_matches ''/api/user'' p \<longleftrightarrow> prefix ''/api/user/'' p \<and> LF \<notin> set (drop 10 p)"
  by (auto simp: route_matches_def TrimRight_slash_def Let_def prefix_def)

lemma matches_asp:
  "route_matches ''/api/'' p \<longleftrightarrow> prefix ''/api/'' p \<and> LF \<notin> set (drop 5 p)"
  by (auto simp: route_matches_def TrimRight_slash_def Let_def prefix_def)

lemmas matches_simps = matches_auth matches_blog matches_user matches_asp

text \<open>
  The paths that some route matches are the paths under \<open>/api/\<close> without a line
  feed.
\<close>

lemma Match_None_iff:
  "Match (routes g) p = None \<longleftrightarrow> \<not> prefix ''/api/'' p \<or> LF \<in> set p"
  by (auto simp: routes_def matches_simps prefix_def LF_def)

text \<open>The router on a path in clean form: the gate around the matched handler.\<close>

lemma router_ServeHTTP_clean:
  assumes "cleanPath (Path r) = Path r"
  shows "router_ServeHTTP env g r w =
     (case Match (routes g) (Path r) of
        None \<Rightarrow> (http_Error ''404 page not found'' StatusNotFound, w)
      | Some rt \<Rightarrow> AuthMiddleware env g (handler rt) r w)"
  using assms by (simp add: router_ServeHTTP_def)

text \<open>Behind the CORS wrapper every request but \<open>OPTIONS\<close> meets the router.\<close>

lemma cors_router:
  "cors (router_ServeHTTP env g) r w =
     (if Method r = ''OPTIONS'' then (CorsAnswered, w) else router_ServeHTTP env g r w)"
  by (simp add: cors_def)

lemma cleanPath_examples:
  "cleanPath ''/api/auth'' = ''/api/auth''"
  "cleanPath ''/api/auth/jwt'' = ''/api/auth/jwt''"
  "cleanPath ''/api/blog/posts/5'' = ''/api/blog/posts/5''"
  "cleanPath ''/api/anything-else'' = ''/api/anything-else''"
  "cleanPath ''/api/blog//posts'' = ''/api/blog/posts''"
  "cleanPath ex_line_feed_path = ex_line_feed_path"
  by (simp_all add: cleanPath_def path_Clean_def Split_def ex_line_feed_path_def LF_def)

lemma ex_gated_facts:
  "\<not> prefix ''/api/auth/'' (Path ex_gated_request)"
  "Header_Get (Header ex_gated_request) ''Authorization'' = ''Bearer '' @ ''tok''"
  "CHR '' '' \<notin> set ''tok''"
  by (simp_all add: ex_gated_request_def ex_request_def Header_Get_def key_Authorization)

lemma ex_validateJWT:
  "validateJWT (ex_env (ex_answer 200) (ex_payload ''u1'' ''admin'' ''alice'' [])) ex_gateway ''tok'' ex_world
     = (Inr (''u1'', ''admin'', ''alice''), ex_called)"
  "validateJWT (ex_env (Inl ''connection refused'') (Inl ''EOF'')) ex_gateway ''tok'' ex_world
     = (Inl (ContactFailed ''connection refused''), ex_called)"
  by (simp_all add: validateJWT_def ex_env_def ex_answer_def ex_payload_def ex_world_def
      ex_called_def Printf_def StatusOK_def Let_def)

section \<open>The claims\<close>

subsection \<open>C1: the bypass prefix\<close>

text \<open>
  C1. For every request whose path is under \<open>/api/auth/\<close>, the Auth Gate hands the
  request and the world as they are to the next handler, whatever the
  \<open>Authorization\<close> header holds: no token is required, and the gate itself logs
  nothing and makes no outbound call, so the Identity Verifier is not invoked.
\<close>

theorem AuthMiddleware_bypass:
  assumes "prefix ''/api/auth/'' (Path r)"
  shows "AuthMiddleware env g next r w = next r w
       \<and> AuthMiddleware env g (\<lambda>r' w'. (Proxied proxy r', w')) r w = (Proxied proxy r, w)"
  using assms by (simp add: AuthMiddleware_def)

text \<open>A login request without an \<open>Authorization\<close> header reaches the auth proxy.\<close>

theorem AuthMiddleware_bypass_witness:
  "prefix ''/api/auth/'' (Path (ex_request ''/api/auth/jwt'' []))
   \<and> AuthMiddleware (ex_env (Inl ''refused'') (Inl ''EOF'')) ex_gateway
        (\<lambda>r' w'. (Proxied (AuthProxy ex_gateway) r', w'))
        (ex_request ''/api/auth/jwt'' []) ex_world
      = (Proxied (AuthProxy ex_gateway) (ex_request ''/api/auth/jwt'' []), ex_world)"
proof -
  have h: "prefix ''/api/auth/'' (Path (ex_request ''/api/auth/jwt'' []))"
    by (simp add: ex_request_def)
  show ?thesis
    using h AuthMiddleware_bypass [OF h] by simp
qed

subsection \<open>C2: the shape of the Authorization header\<close>

text \<open>
  C2, amended. For every request outside the bypass prefix: unless the
  \<open>Authorization\<close> header splits at its spaces into exactly two pieces of which
  the first is \<open>Bearer\<close>, the request is answered with the unauthorized status, the
  next handler is not run, nothing is logged and no outbound call is made. This
  covers the missing header, another scheme, \<open>Bearer\<close> alone and more than two
  pieces. The second piece may be empty: for the header \<open>Bearer\<close> followed by one
  space the gate calls the Identity Verifier with the empty token.
\<close>

theorem AuthMiddleware_malformed:
  assumes gated: "\<not> prefix ''/api/auth/'' (Path r)"
  shows "(\<not> (\<exists>t. Header_Get (Header r) ''Authorization'' = ''Bearer '' @ t \<and> CHR '' '' \<notin> set t)
            \<longrightarrow> (\<exists>msg. AuthMiddleware env g next r w = (HttpError StatusUnauthorized msg, w)))
       \<and> (Header_Get (Header r) ''Authorization'' = ''Bearer ''
            \<longrightarrow> (\<exists>res w'. validateJWT env g [] w = (res, w')
                  \<and> outbound (snd (AuthMiddleware env g (ProxyHandler proxy targetURL) r w))
                      = outbound w'))"
proof (intro conjI impI)
  assume bad: "\<not> (\<exists>t. Header_Get (Header r) ''Authorization'' = ''Bearer '' @ t \<and> CHR '' '' \<notin> set t)"
  show "\<exists>msg. AuthMiddleware env g next r w = (HttpError StatusUnauthorized msg, w)"
    using AuthMiddleware_header_refused [OF gated bad] .
next
  assume "Header_Get (Header r) ''Authorization'' = ''Bearer ''"
  then have hdr: "Header_Get (Header r) ''Authorization'' = ''Bearer '' @ []"
    by simp
  have tok: "CHR '' '' \<notin> set []"
    by simp
  obtain res w' where v: "validateJWT env g [] w = (res, w')"
    by (cases "validateJWT env g [] w")
  have "outbound (snd (AuthMiddleware env g (ProxyHandler proxy targetURL) r w)) = outbound w'"
    using v
    by (cases res)
      (auto simp: AuthMiddleware_gated [OF gated hdr tok] Printf_def ProxyHandler_def)
  then show "\<exists>res w'. validateJWT env g [] w = (res, w')
      \<and> outbound (snd (AuthMiddleware env g (ProxyHandler proxy targetURL) r w)) = outbound w'"
    using v by blast
qed

text \<open>A request for a blog path with the scheme \<open>Basic\<close> is refused, the world unchanged.\<close>

theorem AuthMiddleware_malformed_witness:
  "\<not> prefix ''/api/auth/'' (Path (ex_request ''/api/blog/posts'' [(''Authorization'', [''Basic abc''])]))
   \<and> (\<exists>msg. AuthMiddleware (ex_env (Inl ''refused'') (Inl ''EOF'')) ex_gateway
         (ProxyHandler (BlogProxy ex_gateway) ''http://blog:8082'')
         (ex_request ''/api/blog/posts'' [(''Authorization'', [''Basic abc''])]) ex_world
       = (HttpError StatusUnauthorized msg, ex_world))"
proof -
  let ?r = "ex_request ''/api/blog/posts'' [(''Authorization'', [''Basic abc''])]"
  have h1: "\<not> prefix ''/api/auth/'' (Path ?r)"
    by (simp add: ex_request_def)
  have h2: "\<not> (\<exists>t. Header_Get (Header ?r) ''Authorization'' = ''Bearer '' @ t \<and> CHR '' '' \<notin> set t)"
    by (simp add: ex_request_def Header_Get_def key_Authorization)
  show ?thesis
    using h1 h2 AuthMiddleware_malformed [OF h1] by blast
qed

text \<open>
  The claim as first stated counts a missing token among the deviations that are
  refused with no outbound call. For the header \<open>Bearer\<close> followed by one space
  the token is missing, yet the gate makes the validation call with the empty
  token, here to an auth backend that cannot be reached.
\<close>

theorem empty_token_reaches_verifier:
  "\<not> prefix ''/api/auth/'' (Path ex_empty_token_request)
   \<and> Header_Get (Header ex_empty_token_request) ''Authorization'' = ''Bearer ''
   \<and> Split ''Bearer '' CHR '' '' = [''Bearer'', []]
   \<and> outbound (snd (AuthMiddleware (ex_env (Inl ''refused'') (Inl ''EOF'')) ex_gateway
         (ProxyHandler (BlogProxy ex_gateway) ''http://blog:8082'')
         ex_empty_token_request ex_world))
      = [\<lparr>out_method = ''POST'', out_url = ''http://auth:8081/api/auth/jwt'',
          out_authorization = ''Bearer ''\<rparr>]"
  by (simp add: ex_empty_token_request_def ex_request_def Header_Get_def key_Authorization
      AuthMiddleware_def Split_def validateJWT_def validation_request_def ex_env_def
      ex_gateway_def ex_config_def ex_world_def Printf_def Let_def)

subsection \<open>C3: the identity headers\<close>

text \<open>
  C3. For every request outside the bypass prefix whose bearer token the Identity
  Verifier accepts with the identity (userID, role, username), the request handed
  to the next handler carries exactly the one value userID in \<open>X-User-ID\<close>, role in
  \<open>X-User-Role\<close> and username in \<open>X-Username\<close>, whatever values the caller sent in
  these fields; the other header fields, the method and the path are the caller's.
\<close>

theorem AuthMiddleware_identity_headers:
  assumes gated: "\<not> prefix ''/api/auth/'' (Path r)"
    and hdr: "Header_Get (Header r) ''Authorization'' = ''Bearer '' @ t"
    and tok: "CHR '' '' \<notin> set t"
    and ok: "validateJWT env g t w = (Inr (userID, role, username), w')"
  shows "\<exists>r'. AuthMiddleware env g next r w = next r' w'
      \<and> Header r' ''X-User-Id'' = Some [userID]
      \<and> Header r' ''X-User-Role'' = Some [role]
      \<and> Header r' ''X-Username'' = Some [username]
      \<and> Header_Get (Header r') ''X-User-ID'' = userID
      \<and> Header_Get (Header r') ''X-User-Role'' = role
      \<and> Header_Get (Header r') ''X-Username'' = username
      \<and> (\<forall>k. k \<notin> {''X-User-Id'', ''X-User-Role'', ''X-Username''} \<longrightarrow> Header r' k = Header r k)
      \<and> Method r' = Method r \<and> Path r' = Path r"
proof -
  let ?r = "r\<lparr>Header := Header_Set (Header_Set (Header_Set (Header r)
              ''X-User-ID'' userID) ''X-User-Role'' role) ''X-Username'' username\<rparr>"
  have run: "AuthMiddleware env g next r w = next ?r w'"
    using AuthMiddleware_gated [OF gated hdr tok, of env g "next" w] ok by simp
  have hdrs: "Header ?r = (Header r)(''X-User-Id'' \<mapsto> [userID],
      ''X-User-Role'' \<mapsto> [role], ''X-Username'' \<mapsto> [username])"
    by (simp add: Header_Set_def key_UserID key_Role key_Username)
  show ?thesis
    apply (rule exI [of _ ?r])
    apply (simp only: run hdrs Header_Get_def key_UserID key_Role key_Username)
    apply simp
    done
qed

text \<open>
  The identity u1, admin, alice replaces the values root and superuser that the
  caller sent in the identity fields.
\<close>

theorem AuthMiddleware_identity_headers_witness:
  "\<not> prefix ''/api/auth/'' (Path ex_gated_request)
   \<and> Header ex_gated_request ''X-User-Id'' = Some [''root'']
   \<and> (\<exists>r'. AuthMiddleware (ex_env (ex_answer 200) (ex_payload ''u1'' ''admin'' ''alice'' []))
               ex_gateway (ProxyHandler (BlogProxy ex_gateway) ''http://blog:8082'')
               ex_gated_request ex_world
             = ProxyHandler (BlogProxy ex_gateway) ''http://blog:8082'' r' ex_called
           \<and> Header r' ''X-User-Id'' = Some [''u1'']
           \<and> Header r' ''X-User-Role'' = Some [''admin'']
           \<and> Header r' ''X-Username'' = Some [''alice''])"
proof -
  have spoofed: "Header ex_gated_request ''X-User-Id'' = Some [''root'']"
    by (simp add: ex_gated_request_def ex_request_def)
  show ?thesis
    using spoofed ex_gated_facts(1)
      AuthMiddleware_identity_headers [OF ex_gated_facts ex_validateJWT(1),
        of "ProxyHandler (BlogProxy ex_gateway) ''http://blog:8082''"]
    by blast
qed

subsection \<open>C4: an incomplete identity\<close>



subsection \<open>C5: the order of the routes\<close>

text \<open>
  C5, amended. For every request whose path is in clean form and holds no line
  feed, the router selects the most specific route and runs its handler behind the
  gate: the auth route for a path under \<open>/api/auth/\<close>, the blog route under
  \<open>/api/blog/\<close>, the user route under \<open>/api/user/\<close>, and the catch-all route,
  the last of the table, for any other path under \<open>/api/\<close>. A path in clean form
  that holds a line feed or is not under \<open>/api/\<close> matches no route and is
  answered with not found; a path that is not in clean form is answered with a
  redirect to its clean form. In the last two cases the gate is not run.
\<close>

theorem router_specific_before_catch_all:
  "(cleanPath (Path r) = Path r \<and> LF \<notin> set (Path r) \<longrightarrow>
      (prefix ''/api/auth/'' (Path r) \<longrightarrow>
         Match (routes g) (Path r) =
           Some \<lparr>PathPrefix = ''/api/auth'',
                 handler = ProxyHandler (AuthProxy g) (AuthServiceURL (Config g))\<rparr>
         \<and> router_ServeHTTP env g r w =
             AuthMiddleware env g (ProxyHandler (AuthProxy g) (AuthServiceURL (Config g))) r w)
    \<and> (prefix ''/api/blog/'' (Path r) \<longrightarrow>
         Match (routes g) (Path r) =
           Some \<lparr>PathPrefix = ''/api/blog'',
                 handler = ProxyHandler (BlogProxy g) (BlogServiceURL (Config g))\<rparr>
         \<and> router_ServeHTTP env g r w =
             AuthMiddleware env g (ProxyHandler (BlogProxy g) (BlogServiceURL (Config g))) r w)
    \<and> (prefix ''/api/user/'' (Path r) \<longrightarrow>
         Match (routes g) (Path r) =
           Some \<lparr>PathPrefix = ''/api/user'',
                 handler = ProxyHandler (UserProxy g) (UserServiceURL (Config g))\<rparr>
         \<and> router_ServeHTTP env g r w =
             AuthMiddleware env g (ProxyHandler (UserProxy g) (UserServiceURL (Config g))) r w)
    \<and> (prefix ''/api/'' (Path r) \<and> \<not> prefix ''/api/auth/'' (Path r)
          \<and> \<not> prefix ''/api/blog/'' (Path r) \<and> \<not> prefix ''/api/user/'' (Path r) \<longrightarrow>
         Match (routes g) (Path r) =
           Some \<lparr>PathPrefix = ''/api/'',
                 handler = ProxyHandler (AspProxy g) (AspServiceURL (Config g))\<rparr>
         \<and> router_ServeHTTP env g r w =
             AuthMiddleware env g (ProxyHandler (AspProxy g) (AspServiceURL (Config g))) r w))
   \<and> (cleanPath (Path r) = Path r \<and> (LF \<in> set (Path r) \<or> \<not> prefix ''/api/'' (Path r)) \<longrightarrow>
        Match (routes g) (Path r) = None
        \<and> router_ServeHTTP env g r w = (http_Error ''404 page not found'' StatusNotFound, w))
   \<and> (cleanPath (Path r) \<noteq> Path r \<longrightarrow>
        router_ServeHTTP env g r w = (MovedPermanently (cleanPath (Path r)), w))
   \<and> PathPrefix (last (routes g)) = ''/api/''"
proof (intro conjI impI)
  assume h: "cleanPath (Path r) = Path r \<and> LF \<notin> set (Path r)"
  then have d: "LF \<notin> set (drop n (Path r))" for n
    by (meson in_set_dropD)
  note serve = router_ServeHTTP_clean [of r env g w]
  {
    assume "prefix ''/api/auth/'' (Path r)"
    then show "Match (routes g) (Path r) =
           Some \<lparr>PathPrefix = ''/api/auth'',
                 handler = ProxyHandler (AuthProxy g) (AuthServiceURL (Config g))\<rparr>"
      by (simp add: routes_def matches_simps d)
    then show "router_ServeHTTP env g r w =
        AuthMiddleware env g (ProxyHandler (AuthProxy g) (AuthServiceURL (Config g))) r w"
      using h by (simp add: serve)
  next
    assume "prefix ''/api/blog/'' (Path r)"
    then show "Match (routes g) (Path r) =
           Some \<lparr>PathPrefix = ''/api/blog'',
                 handler = ProxyHandler (BlogProxy g) (BlogServiceURL (Config g))\<rparr>"
      by (auto simp: routes_def matches_simps d prefix_def)
    then show "router_ServeHTTP env g r w =
        AuthMiddleware env g (ProxyHandler (BlogProxy g) (BlogServiceURL (Config g))) r w"
      using h by (simp add: serve)
  next
    assume "prefix ''/api/user/'' (Path r)"
    then show "Match (routes g) (Path r) =
           Some \<lparr>PathPrefix = ''/api/user'',
                 handler = ProxyHandler (UserProxy g) (UserServiceURL (Config g))\<rparr>"
      by (auto simp: routes_def matches_simps d prefix_def)
    then show "router_ServeHTTP env g r w =
        AuthMiddleware env g (ProxyHandler (UserProxy g) (UserServiceURL (Config g))) r w"
      using h by (simp add: serve)
  next
    assume "prefix ''/api/'' (Path r) \<and> \<not> prefix ''/api/auth/'' (Path r)
          \<and> \<not> prefix ''/api/blog/'' (Path r) \<and> \<not> prefix ''/api/user/'' (Path r)"
    then show "Match (routes g) (Path r) =
           Some \<lparr>PathPrefix = ''/api/'',
                 handler = ProxyHandler (AspProxy g) (AspServiceURL (Config g))\<rparr>"
      by (simp add: routes_def matches_simps d)
    then show "router_ServeHTTP env g r w =
        AuthMiddleware env g (ProxyHandler (AspProxy g) (AspServiceURL (Config g))) r w"
      using h by (simp add: serve)
  }
next
  assume h: "cleanPath (Path r) = Path r \<and> (LF \<in> set (Path r) \<or> \<not> prefix ''/api/'' (Path r))"
  then show none: "Match (routes g) (Path r) = None"
    by (simp only: Match_None_iff) blast
  show "router_ServeHTTP env g r w = (http_Error ''404 page not found'' StatusNotFound, w)"
    using h none by (simp add: router_ServeHTTP_clean)
next
  assume "cleanPath (Path r) \<noteq> Path r"
  then show "router_ServeHTTP env g r w = (MovedPermanently (cleanPath (Path r)), w)"
    by (simp add: router_ServeHTTP_def)
next
  show "PathPrefix (last (routes g)) = ''/api/''"
    by (simp add: routes_def)
qed

text \<open>
  The path \<open>/api/blog/posts/5\<close> selects the blog route and \<open>/api/anything-else\<close>
  the catch-all.
\<close>

theorem router_specific_before_catch_all_witness:
  "cleanPath ''/api/blog/posts/5'' = ''/api/blog/posts/5''
   \<and> LF \<notin> set ''/api/blog/posts/5''
   \<and> Match (routes ex_gateway) ''/api/blog/posts/5'' =
       Some \<lparr>PathPrefix = ''/api/blog'',
             handler = ProxyHandler (BlogProxy ex_gateway) (BlogServiceURL (Config ex_gateway))\<rparr>
   \<and> cleanPath ''/api/anything-else'' = ''/api/anything-else''
   \<and> LF \<notin> set ''/api/anything-else''
   \<and> Match (routes ex_gateway) ''/api/anything-else'' =
       Some \<lparr>PathPrefix = ''/api/'',
             handler = ProxyHandler (AspProxy ex_gateway) (AspServiceURL (Config ex_gateway))\<rparr>"
proof -
  have c: "cleanPath (Path (ex_request ''/api/blog/posts/5'' [])) = Path (ex_request ''/api/blog/posts/5'' [])"
    "cleanPath (Path (ex_request ''/api/anything-else'' [])) = Path (ex_request ''/api/anything-else'' [])"
    by (simp_all add: ex_request_def cleanPath_examples)
  have l: "LF \<notin> set (Path (ex_request ''/api/blog/posts/5'' []))"
    "LF \<notin> set (Path (ex_request ''/api/anything-else'' []))"
    by (simp_all add: ex_request_def LF_def)
  have p: "Path (ex_request ''/api/blog/posts/5'' []) = ''/api/blog/posts/5''"
    "Path (ex_request ''/api/anything-else'' []) = ''/api/anything-else''"
    by (simp_all add: ex_request_def)
  show ?thesis
    using c l
      router_specific_before_catch_all [of "ex_request ''/api/blog/posts/5'' []" ex_gateway]
      router_specific_before_catch_all [of "ex_request ''/api/anything-else'' []" ex_gateway]
    by (simp add: p)
qed

text \<open>
  The claim as first stated routes every path under \<open>/api/blog/\<close> to the blog
  backend. The path \<open>/api/blog/a\<close>, a line feed, \<open>b\<close> is under that prefix and in
  clean form, yet no route matches it and the router answers not found; the path
  \<open>/api/blog//posts\<close> is under that prefix too and is answered with a redirect.
\<close>

theorem blog_path_not_routed:
  "prefix ''/api/blog/'' ex_line_feed_path
   \<and> Match (routes ex_gateway) ex_line_feed_path = None
   \<and> router_ServeHTTP (ex_env (ex_answer 200) (ex_payload ''u1'' ''admin'' ''alice'' [])) ex_gateway
        (ex_request ex_line_feed_path [(''Authorization'', [''Bearer tok''])]) ex_world
      = (http_Error ''404 page not found'' StatusNotFound, ex_world)
   \<and> prefix ''/api/blog/'' ''/api/blog//posts''
   \<and> router_ServeHTTP (ex_env (ex_answer 200) (ex_payload ''u1'' ''admin'' ''alice'' [])) ex_gateway
        (ex_request ''/api/blog//posts'' [(''Authorization'', [''Bearer tok''])]) ex_world
      = (MovedPermanently ''/api/blog/posts'', ex_world)"
proof -
  have none: "Match (routes ex_gateway) ex_line_feed_path = None"
    by (simp add: Match_None_iff ex_line_feed_path_def)
  show ?thesis
    using none
    by (simp add: router_ServeHTTP_def ex_request_def cleanPath_examples)
      (simp add: ex_line_feed_path_def)
qed

subsection \<open>C6: the failures of the verifier\<close>

text \<open>
  C6. For every gated request on which the Identity Verifier returns an error,
  whichever it is, the answer is the unauthorized status with the fixed body
  \<open>invalid JWT\<close>, the next handler is not run, and the log gets one line with the
  text of the error; texts of errors of different failure classes differ, so the
  log tells the class while the body does not.
\<close>

theorem verifier_failure_unauthorized:
  assumes gated: "\<not> prefix ''/api/auth/'' (Path r)"
    and hdr: "Header_Get (Header r) ''Authorization'' = ''Bearer '' @ t"
    and tok: "CHR '' '' \<notin> set t"
    and err: "validateJWT env g t w = (Inl e, w')"
  shows "AuthMiddleware env g next r w =
           (HttpError StatusUnauthorized (''invalid JWT'' @ [LF]),
            w'\<lparr>logged := logged w' @ [''JWT validation failed: '' @ error_text e]\<rparr>)
       \<and> (\<forall>e'. error_text e' = error_text e \<longrightarrow> reason e' = reason e)"
proof
  show "AuthMiddleware env g next r w =
           (HttpError StatusUnauthorized (''invalid JWT'' @ [LF]),
            w'\<lparr>logged := logged w' @ [''JWT validation failed: '' @ error_text e]\<rparr>)"
    using AuthMiddleware_error [OF gated hdr tok err, of "next"]
    by (simp add: http_Error_def Printf_def LF_def)
  show "\<forall>e'. error_text e' = error_text e \<longrightarrow> reason e' = reason e"
    using error_text_reason by blast
qed

text \<open>An auth backend that cannot be reached: the refusal and its line in the log.\<close>

theorem verifier_failure_unauthorized_witness:
  "validateJWT (ex_env (Inl ''connection refused'') (Inl ''EOF'')) ex_gateway ''tok'' ex_world
     = (Inl (ContactFailed ''connection refused''), ex_called)
   \<and> AuthMiddleware (ex_env (Inl ''connection refused'') (Inl ''EOF'')) ex_gateway
        (ProxyHandler (BlogProxy ex_gateway) ''http://blog:8082'') ex_gated_request ex_world
     = (HttpError StatusUnauthorized (''invalid JWT'' @ [LF]),
        ex_called\<lparr>logged := logged ex_called @
           [''JWT validation failed: failed to contact AuthService: connection refused'']\<rparr>)"
  using ex_validateJWT(2)
    verifier_failure_unauthorized [OF ex_gated_facts ex_validateJWT(2),
      of "ProxyHandler (BlogProxy ex_gateway) ''http://blog:8082''"]
  by simp

subsection \<open>C7: an answer with a status other than success\<close>

text \<open>
  C7. For every answer of the auth backend with a status other than success: if
  the body decodes and its error message is not empty, the Identity Verifier
  returns the error carrying that message; otherwise it returns the error carrying
  the status code.
\<close>

theorem non_success_status_error:
  assumes url: "url_Parse env (out_url (validation_request g t)) = None"
    and resp: "client_Do env (validation_request g t) = Inr resp"
    and bad: "StatusCode resp \<noteq> StatusOK"
  shows "(\<forall>a. json_Decode env (Body resp) = Inr a \<and> Error a \<noteq> []
            \<longrightarrow> fst (validateJWT env g t w) = Inl (AuthServiceError (Error a)))
       \<and> ((\<forall>a. json_Decode env (Body resp) = Inr a \<longrightarrow> Error a = [])
            \<longrightarrow> fst (validateJWT env g t w) = Inl (AuthServiceStatus (StatusCode resp)))"
  using bad by (auto simp: validateJWT_response [OF url resp] Let_def split: sum.splits)

text \<open>
  The status 401 with the message \<open>token expired\<close>, and the status 503 with a body
  that does not decode.
\<close>

theorem non_success_status_error_witness:
  "fst (validateJWT (ex_env (ex_answer 401) (ex_payload [] [] [] ''token expired'')) ex_gateway ''tok'' ex_world)
     = Inl (AuthServiceError ''token expired'')
   \<and> fst (validateJWT (ex_env (ex_answer 503) (Inl ''EOF'')) ex_gateway ''tok'' ex_world)
     = Inl (AuthServiceStatus 503)"
proof -
  let ?env = "ex_env (ex_answer 401) (ex_payload [] [] [] ''token expired'')"
  let ?env' = "ex_env (ex_answer 503) (Inl ''EOF'')"
  have url: "url_Parse ?env (out_url (validation_request ex_gateway ''tok'')) = None"
    and url': "url_Parse ?env' (out_url (validation_request ex_gateway ''tok'')) = None"
    by (simp_all add: ex_env_def)
  have resp: "client_Do ?env (validation_request ex_gateway ''tok'')
                = Inr \<lparr>StatusCode = 401, Body = ''{}''\<rparr>"
    and resp': "client_Do ?env' (validation_request ex_gateway ''tok'')
                = Inr \<lparr>StatusCode = 503, Body = ''{}''\<rparr>"
    by (simp_all add: ex_env_def ex_answer_def)
  have bad: "StatusCode \<lparr>StatusCode = 401, Body = ''{}''\<rparr> \<noteq> StatusOK"
    and bad': "StatusCode \<lparr>StatusCode = 503, Body = ''{}''\<rparr> \<noteq> StatusOK"
    by (simp_all add: StatusOK_def)
  have "fst (validateJWT ?env ex_gateway ''tok'' ex_world) = Inl (AuthServiceError ''token expired'')"
    using non_success_status_error [OF url resp bad, of ex_world]
    by (simp add: ex_env_def ex_payload_def)
  moreover have "fst (validateJWT ?env' ex_gateway ''tok'' ex_world) = Inl (AuthServiceStatus 503)"
    using non_success_status_error [OF url' resp' bad', of ex_world]
    by (simp add: ex_env_def)
  ultimately show ?thesis by simp
qed

subsection \<open>C8: startup\<close>

text \<open>
  C8. If one of the four base addresses (auth, blog, user, asp) is absent from the
  environment or does not parse, both \<open>main\<close> functions end in \<open>log.Fatal\<close>
  and no server is started; if one does not parse, \<open>NewGateway\<close> returns an error.
\<close>

theorem startup_refuses_bad_address:
  assumes "\<exists>u \<in> {AuthServiceURL (env_config os), BlogServiceURL (env_config os),
                   UserServiceURL (env_config os), AspServiceURL (env_config os)}.
             u = [] \<or> url_Parse env u \<noteq> None"
  shows "(\<exists>msg. main env os = Fatal msg) \<and> (\<exists>msg. main_cors env os = Fatal msg)
       \<and> ((\<exists>u \<in> {AuthServiceURL (env_config os), BlogServiceURL (env_config os),
                   UserServiceURL (env_config os), AspServiceURL (env_config os)}.
             url_Parse env u \<noteq> None)
           \<longrightarrow> (\<exists>e. NewGateway env (env_config os) = Inl e))"
proof -
  have f: "\<exists>msg. main_after_dotenv wrap env os = Fatal msg" for wrap
    using assms by (simp only: main_after_dotenv_Fatal_iff)
  have "\<exists>msg. main env os = Fatal msg"
    using f by (cases "godotenv_Load os") (simp_all add: main_def)
  moreover have "\<exists>msg. main_cors env os = Fatal msg"
    using f by (simp add: main_cors_def)
  ultimately show ?thesis
    by (auto simp: NewGateway_error_iff)
qed

text \<open>Without \<open>ASP_SERVICE_URL\<close> the process does not start.\<close>

theorem startup_refuses_bad_address_witness:
  "AspServiceURL (env_config (ex_os ex_vars)) = []
   \<and> (\<exists>msg. main (ex_env (Inl ''refused'') (Inl ''EOF'')) (ex_os ex_vars) = Fatal msg)
   \<and> (\<exists>msg. main_cors (ex_env (Inl ''refused'') (Inl ''EOF'')) (ex_os ex_vars) = Fatal msg)"
proof -
  let ?os = "ex_os ex_vars"
  have absent: "AspServiceURL (env_config ?os) = []"
    by (simp add: env_config_def ex_os_def ex_vars_def)
  then have h: "\<exists>u \<in> {AuthServiceURL (env_config ?os), BlogServiceURL (env_config ?os),
                   UserServiceURL (env_config ?os), AspServiceURL (env_config ?os)}.
             u = [] \<or> url_Parse (ex_env (Inl ''refused'') (Inl ''EOF'')) u \<noteq> None"
    by simp
  show ?thesis
    using absent startup_refuses_bad_address [OF h] by simp
qed

subsection \<open>C9: the path /api/auth without a trailing slash\<close>

text \<open>
  C9. A request whose path is exactly \<open>/api/auth\<close> does not bypass the gate and is
  not matched by the auth route but by the catch-all route: the router runs the
  gate around the handler of the catch-all proxy. So without an \<open>Authorization\<close>
  header the request is refused as unauthorized; with the header \<open>Bearer t\<close> for a
  token \<open>t\<close> that the Identity Verifier accepts it is forwarded, with the identity
  headers, to the catch-all proxy; and it is forwarded in no other case and to no
  other proxy.
\<close>

theorem api_auth_exact_is_gated:
  assumes path: "Path r = ''/api/auth''"
  shows "\<not> prefix ''/api/auth/'' (Path r)
       \<and> \<not> route_matches ''/api/auth'' (Path r)
       \<and> Match (routes g) (Path r) =
           Some \<lparr>PathPrefix = ''/api/'',
                 handler = ProxyHandler (AspProxy g) (AspServiceURL (Config g))\<rparr>
       \<and> router_ServeHTTP env g r w =
           AuthMiddleware env g (ProxyHandler (AspProxy g) (AspServiceURL (Config g))) r w
       \<and> (Header_Get (Header r) ''Authorization'' = [] \<longrightarrow>
            router_ServeHTTP env g r w =
              (http_Error ''missing Authorization header'' StatusUnauthorized, w))
       \<and> (\<forall>t userID role username w'.
            Header_Get (Header r) ''Authorization'' = ''Bearer '' @ t \<and> CHR '' '' \<notin> set t
            \<and> validateJWT env g t w = (Inr (userID, role, username), w') \<longrightarrow>
            router_ServeHTTP env g r w =
              (Proxied (AspProxy g)
                 (r\<lparr>Header := (Header r)(''X-User-Id'' \<mapsto> [userID],
                      ''X-User-Role'' \<mapsto> [role], ''X-Username'' \<mapsto> [username])\<rparr>),
               Printf (''Forwarding '' @ Method r @ '' /api/auth to '' @ AspServiceURL (Config g)) w'))
       \<and> (\<forall>proxy r'. fst (router_ServeHTTP env g r w) = Proxied proxy r' \<longrightarrow>
            proxy = AspProxy g
            \<and> (\<exists>t identity w'.
                  Header_Get (Header r) ''Authorization'' = ''Bearer '' @ t
                  \<and> validateJWT env g t w = (Inr identity, w')))"
proof -
  have gated: "\<not> prefix ''/api/auth/'' (Path r)"
    by (simp add: path)
  have m: "Match (routes g) (Path r) =
           Some \<lparr>PathPrefix = ''/api/'',
                 handler = ProxyHandler (AspProxy g) (AspServiceURL (Config g))\<rparr>"
    by (simp add: path routes_def matches_simps LF_def)
  have clean: "cleanPath (Path r) = Path r"
    by (simp add: path cleanPath_examples)
  have serve: "router_ServeHTTP env g r w =
      AuthMiddleware env g (ProxyHandler (AspProxy g) (AspServiceURL (Config g))) r w"
    by (simp add: router_ServeHTTP_clean [OF clean] m)
  have missing: "router_ServeHTTP env g r w =
              (http_Error ''missing Authorization header'' StatusUnauthorized, w)"
    if "Header_Get (Header r) ''Authorization'' = []"
    using that gated by (simp add: serve AuthMiddleware_def)
  have valid: "router_ServeHTTP env g r w =
              (Proxied (AspProxy g)
                 (r\<lparr>Header := (Header r)(''X-User-Id'' \<mapsto> [userID],
                      ''X-User-Role'' \<mapsto> [role], ''X-Username'' \<mapsto> [username])\<rparr>),
               Printf (''Forwarding '' @ Method r @ '' /api/auth to '' @ AspServiceURL (Config g)) w')"
    if hdr: "Header_Get (Header r) ''Authorization'' = ''Bearer '' @ t"
      and tok: "CHR '' '' \<notin> set t"
      and ok: "validateJWT env g t w = (Inr (userID, role, username), w')"
    for t userID role username w'
    using ok
    by (simp add: serve AuthMiddleware_gated [OF gated hdr tok] ProxyHandler_def path
        Header_Set_def key_UserID key_Role key_Username)
  have fwd: "proxy = AspProxy g
            \<and> (\<exists>t identity w'.
                  Header_Get (Header r) ''Authorization'' = ''Bearer '' @ t
                  \<and> validateJWT env g t w = (Inr identity, w'))"
    if out: "fst (router_ServeHTTP env g r w) = Proxied proxy r'" for proxy r'
  proof (cases "\<exists>t. Header_Get (Header r) ''Authorization'' = ''Bearer '' @ t \<and> CHR '' '' \<notin> set t")
    case False
    then obtain msg where
      "AuthMiddleware env g (ProxyHandler (AspProxy g) (AspServiceURL (Config g))) r w
         = (HttpError StatusUnauthorized msg, w)"
      using AuthMiddleware_header_refused [OF gated] by blast
    then show ?thesis using out by (simp add: serve)
  next
    case True
    then obtain t where hdr: "Header_Get (Header r) ''Authorization'' = ''Bearer '' @ t"
      and tok: "CHR '' '' \<notin> set t" by blast
    obtain res w' where v: "validateJWT env g t w = (res, w')"
      by (cases "validateJWT env g t w")
    show ?thesis
    proof (cases res)
      case (Inl e)
      then show ?thesis
        using out v by (simp add: serve AuthMiddleware_error [OF gated hdr tok] http_Error_def)
    next
      case (Inr identity)
      then show ?thesis
        using out v hdr
        by (auto simp: serve AuthMiddleware_gated [OF gated hdr tok] ProxyHandler_def
            split: prod.splits)
    qed
  qed
  show ?thesis
    using gated m serve missing valid fwd by (simp add: path matches_simps)
qed

text \<open>
  The request for \<open>/api/auth\<close> with a token that the auth backend accepts as u1,
  admin, alice reaches the catch-all proxy, which is not the auth proxy, with the
  identity headers; the same request without a token is refused.
\<close>

theorem api_auth_exact_is_gated_witness:
  "Path ex_api_auth_request = ''/api/auth''
   \<and> router_ServeHTTP (ex_env (ex_answer 200) (ex_payload ''u1'' ''admin'' ''alice'' [])) ex_gateway
        ex_api_auth_request ex_world
      = (Proxied (NewSingleHostReverseProxy ''http://asp:8084'')
           (ex_api_auth_request\<lparr>Header := (Header ex_api_auth_request)(''X-User-Id'' \<mapsto> [''u1''],
                ''X-User-Role'' \<mapsto> [''admin''], ''X-Username'' \<mapsto> [''alice''])\<rparr>),
         Printf ''Forwarding GET /api/auth to http://asp:8084'' ex_called)
   \<and> AuthProxy ex_gateway = NewSingleHostReverseProxy ''http://auth:8081''
   \<and> Path (ex_request ''/api/auth'' []) = ''/api/auth''
   \<and> router_ServeHTTP (ex_env (ex_answer 200) (ex_payload ''u1'' ''admin'' ''alice'' [])) ex_gateway
        (ex_request ''/api/auth'' []) ex_world
      = (http_Error ''missing Authorization header'' StatusUnauthorized, ex_world)"
proof -
  let ?env = "ex_env (ex_answer 200) (ex_payload ''u1'' ''admin'' ''alice'' [])"
  have h: "Path ex_api_auth_request = ''/api/auth''"
    by (simp add: ex_api_auth_request_def ex_request_def)
  have hdr: "Header_Get (Header ex_api_auth_request) ''Authorization'' = ''Bearer '' @ ''tok''"
    and tok: "CHR '' '' \<notin> set ''tok''"
    by (simp_all add: ex_api_auth_request_def ex_request_def Header_Get_def key_Authorization)
  have h': "Path (ex_request ''/api/auth'' []) = ''/api/auth''"
    by (simp add: ex_request_def)
  have none: "Header_Get (Header (ex_request ''/api/auth'' [])) ''Authorization'' = []"
    by (simp add: ex_request_def Header_Get_def)
  have g: "AspProxy ex_gateway = NewSingleHostReverseProxy ''http://asp:8084''"
    "AuthProxy ex_gateway = NewSingleHostReverseProxy ''http://auth:8081''"
    "AspServiceURL (Config ex_gateway) = ''http://asp:8084''"
    by (simp_all add: ex_gateway_def ex_config_def)
  have m: "Method ex_api_auth_request = ''GET''"
    by (simp add: ex_api_auth_request_def ex_request_def)
  from api_auth_exact_is_gated [OF h, of ex_gateway ?env ex_world] hdr tok ex_validateJWT(1)
  have "router_ServeHTTP ?env ex_gateway ex_api_auth_request ex_world
      = (Proxied (AspProxy ex_gateway)
           (ex_api_auth_request\<lparr>Header := (Header ex_api_auth_request)(''X-User-Id'' \<mapsto> [''u1''],
                ''X-User-Role'' \<mapsto> [''admin''], ''X-Username'' \<mapsto> [''alice''])\<rparr>),
         Printf (''Forwarding '' @ Method ex_api_auth_request @ '' /api/auth to ''
                 @ AspServiceURL (Config ex_gateway)) ex_called)"
    by blast
  moreover from api_auth_exact_is_gated [OF h', of ex_gateway ?env ex_world] none
  have "router_ServeHTTP ?env ex_gateway (ex_request ''/api/auth'' []) ex_world
      = (http_Error ''missing Authorization header'' StatusUnauthorized, ex_world)"
    by blast
  ultimately show ?thesis
    using h h' by (simp add: g m)
qed

subsection \<open>C10: headers on the bypass prefix\<close>

text \<open>
  C10. For every request under \<open>/api/auth/\<close>, the request that the proxy receives
  is the caller's request: all header fields, in particular the values of
  \<open>X-User-ID\<close>, \<open>X-User-Role\<close> and \<open>X-Username\<close>, are as the caller sent them, and
  the gate makes no outbound call.
\<close>

theorem bypass_forwards_request_unchanged:
  assumes "prefix ''/api/auth/'' (Path r)"
  shows "AuthMiddleware env g (ProxyHandler proxy targetURL) r w = ProxyHandler proxy targetURL r w
       \<and> forwarded (fst (AuthMiddleware env g (ProxyHandler proxy targetURL) r w)) = Some r
       \<and> (\<forall>r'. forwarded (fst (AuthMiddleware env g (ProxyHandler proxy targetURL) r w)) = Some r'
             \<longrightarrow> Header r' = Header r
               \<and> Header_Get (Header r') ''X-User-ID'' = Header_Get (Header r) ''X-User-ID''
               \<and> Header_Get (Header r') ''X-User-Role'' = Header_Get (Header r) ''X-User-Role''
               \<and> Header_Get (Header r') ''X-Username'' = Header_Get (Header r) ''X-Username'')
       \<and> outbound (snd (AuthMiddleware env g (ProxyHandler proxy targetURL) r w)) = outbound w"
  using assms by (simp add: AuthMiddleware_def ProxyHandler_def Printf_def)

text \<open>The value root that the caller sent in \<open>X-User-ID\<close> reaches the auth proxy.\<close>

theorem bypass_forwards_request_unchanged_witness:
  "prefix ''/api/auth/'' (Path (ex_request ''/api/auth/login'' [(''X-User-Id'', [''root''])]))
   \<and> forwarded (fst (AuthMiddleware (ex_env (Inl ''refused'') (Inl ''EOF'')) ex_gateway
         (ProxyHandler (AuthProxy ex_gateway) ''http://auth:8081'')
         (ex_request ''/api/auth/login'' [(''X-User-Id'', [''root''])]) ex_world))
      = Some (ex_request ''/api/auth/login'' [(''X-User-Id'', [''root''])])
   \<and> Header_Get (Header (ex_request ''/api/auth/login'' [(''X-User-Id'', [''root''])])) ''X-User-ID''
      = ''root''"
proof -
  let ?r = "ex_request ''/api/auth/login'' [(''X-User-Id'', [''root''])]"
  have h: "prefix ''/api/auth/'' (Path ?r)"
    by (simp add: ex_request_def)
  have v: "Header_Get (Header ?r) ''X-User-ID'' = ''root''"
    by (simp add: ex_request_def Header_Get_def key_UserID)
  show ?thesis
    using h v
      bypass_forwards_request_unchanged [OF h, of "ex_env (Inl ''refused'') (Inl ''EOF'')"
        ex_gateway "AuthProxy ex_gateway" "''http://auth:8081''" ex_world]
    by blast
qed

end
